theory Spec2Isabelle
  imports Main "HOL-Library.Word" "HOL-Library.Char_ord" "HOL-Library.List_Lexorder"
    "HOL-Library.AList" "HOL-Library.Multiset"
begin

unbundle bit_operations_syntax

section \<open>The checksum hash\<close>

text \<open>
  \<^verbatim>\<open>hash\<close> (migration.go) feeds the bytes of its argument to \<^verbatim>\<open>crypto/md5\<close> and
  hex-encodes the 16-byte digest with \<^verbatim>\<open>encoding/hex\<close>. MD5 is written out
  here after RFC 1321: bytes are \<open>8 word\<close>, the state is four \<open>32 word\<close>s whose
  addition wraps, words are read and written little-endian.
\<close>

type_synonym u32 = "32 word"
type_synonym byte = "8 word"
type_synonym md5_state = "u32 \<times> u32 \<times> u32 \<times> u32"

definition md5_shifts :: "nat list" where
  "md5_shifts =
    [7, 12, 17, 22, 7, 12, 17, 22, 7, 12, 17, 22, 7, 12, 17, 22,
     5, 9, 14, 20, 5, 9, 14, 20, 5, 9, 14, 20, 5, 9, 14, 20,
     4, 11, 16, 23, 4, 11, 16, 23, 4, 11, 16, 23, 4, 11, 16, 23,
     6, 10, 15, 21, 6, 10, 15, 21, 6, 10, 15, 21, 6, 10, 15, 21]"

definition md5_table :: "u32 list" where
  "md5_table =
    [0xd76aa478, 0xe8c7b756, 0x242070db, 0xc1bdceee, 0xf57c0faf, 0x4787c62a, 0xa8304613, 0xfd469501,
     0x698098d8, 0x8b44f7af, 0xffff5bb1, 0x895cd7be, 0x6b901122, 0xfd987193, 0xa679438e, 0x49b40821,
     0xf61e2562, 0xc040b340, 0x265e5a51, 0xe9b6c7aa, 0xd62f105d, 0x02441453, 0xd8a1e681, 0xe7d3fbc8,
     0x21e1cde6, 0xc33707d6, 0xf4d50d87, 0x455a14ed, 0xa9e3e905, 0xfcefa3f8, 0x676f02d9, 0x8d2a4c8a,
     0xfffa3942, 0x8771f681, 0x6d9d6122, 0xfde5380c, 0xa4beea44, 0x4bdecfa9, 0xf6bb4b60, 0xbebfbc70,
     0x289b7ec6, 0xeaa127fa, 0xd4ef3085, 0x04881d05, 0xd9d4d039, 0xe6db99e5, 0x1fa27cf8, 0xc4ac5665,
     0xf4292244, 0x432aff97, 0xab9423a7, 0xfc93a039, 0x655b59c3, 0x8f0ccc92, 0xffeff47d, 0x85845dd1,
     0x6fa87e4f, 0xfe2ce6e0, 0xa3014314, 0x4e0811a1, 0xf7537e82, 0xbd3af235, 0x2ad7d2bb, 0xeb86d391]"

definition le_word :: "byte list \<Rightarrow> u32" where
  "le_word bs = foldr (\<lambda>b w. ucast b OR push_bit 8 w) bs 0"

definition le_bytes32 :: "u32 \<Rightarrow> byte list" where
  "le_bytes32 w = map (\<lambda>k. ucast (drop_bit (8 * k) w)) [0, 1, 2, 3]"

definition le_bytes64 :: "64 word \<Rightarrow> byte list" where
  "le_bytes64 w = map (\<lambda>k. ucast (drop_bit (8 * k) w)) [0, 1, 2, 3, 4, 5, 6, 7]"

text \<open>Padding: one \<open>0x80\<close> byte, zeros up to 56 modulo 64, then the bit length in 64 bits.\<close>

definition md5_pad :: "byte list \<Rightarrow> byte list" where
  "md5_pad bs = bs @ [0x80] @ replicate ((119 - length bs mod 64) mod 64) 0
     @ le_bytes64 (push_bit 3 (of_nat (length bs)))"

fun words_of :: "nat \<Rightarrow> byte list \<Rightarrow> u32 list" where
  "words_of 0 bs = []"
| "words_of (Suc n) bs = le_word (take 4 bs) # words_of n (drop 4 bs)"

definition md5_step :: "u32 list \<Rightarrow> nat \<Rightarrow> md5_state \<Rightarrow> md5_state" where
  "md5_step m i s = (case s of (a, b, c, d) \<Rightarrow>
     let f = (if i < 16 then (b AND c) OR (NOT b AND d)
              else if i < 32 then (d AND b) OR (NOT d AND c)
              else if i < 48 then b XOR c XOR d
              else c XOR (b OR NOT d));
         g = (if i < 16 then i
              else if i < 32 then (5 * i + 1) mod 16
              else if i < 48 then (3 * i + 5) mod 16
              else (7 * i) mod 16);
         f' = f + a + md5_table ! i + m ! g
     in (d, b + word_rotl (md5_shifts ! i) f', b, c))"

definition md5_block :: "md5_state \<Rightarrow> byte list \<Rightarrow> md5_state" where
  "md5_block s blk = (case s of (a0, b0, c0, d0) \<Rightarrow>
     case fold (md5_step (words_of 16 blk)) [0..<64] s of (a, b, c, d) \<Rightarrow>
       (a0 + a, b0 + b, c0 + c, d0 + d))"

fun md5_blocks :: "nat \<Rightarrow> md5_state \<Rightarrow> byte list \<Rightarrow> md5_state" where
  "md5_blocks 0 s bs = s"
| "md5_blocks (Suc n) s bs = md5_blocks n (md5_block s (take 64 bs)) (drop 64 bs)"

definition md5_sum :: "byte list \<Rightarrow> byte list" where
  "md5_sum bs = (let p = md5_pad bs in
     case md5_blocks (length p div 64) (0x67452301, 0xefcdab89, 0x98badcfe, 0x10325476) p of
       (a, b, c, d) \<Rightarrow> le_bytes32 a @ le_bytes32 b @ le_bytes32 c @ le_bytes32 d)"

definition hex_digit :: "byte \<Rightarrow> char" where
  "hex_digit n = ''0123456789abcdef'' ! unat n"

definition hex_encode :: "byte list \<Rightarrow> string" where
  "hex_encode bs = concat (map (\<lambda>b. [hex_digit (drop_bit 4 b), hex_digit (b AND 0x0f)]) bs)"

definition hash :: "string \<Rightarrow> string" where
  "hash text = hex_encode (md5_sum (map of_char text))"

section \<open>Migration definitions\<close>

datatype MigrationState = MigrationPending | MigrationSuccess | MigrationFailed

record MigrationInfo =
  Version :: string
  State :: MigrationState
  Description :: string
  InstalledRank :: int
  Checksum :: string

text \<open>
  Bound arguments (\<^verbatim>\<open>interface{}\<close> values) and the outcome of running one command.
  A command works on the schema state \<open>'d\<close> of the transaction it runs in; it returns,
  fails with an error, or panics.
\<close>

datatype sqlarg = ArgNull | ArgBool bool | ArgInt int | ArgStr string

datatype 'd outcome = Done 'd | Failed string | Panicked string

type_synonym 'd MigrationCommandFn = "'d \<Rightarrow> sqlarg list \<Rightarrow> 'd outcome"

datatype 'd migrationCommand =
    migrationCommandSql string "sqlarg list"
  | migrationCommandCallback string "'d MigrationCommandFn" "sqlarg list"

text \<open>
  The \<^verbatim>\<open>Prepare\<close> callback of a migration is the sequence of \<^verbatim>\<open>ExecSql\<close> and
  \<^verbatim>\<open>ExecFn\<close> calls it makes on the migration it is given, or \<open>None\<close> for a nil
  function. \<^verbatim>\<open>ExecFn\<close> also records its call site (\<^verbatim>\<open>runtime.Caller(1)\<close>), which is
  carried by the call.
\<close>

datatype 'd prepare_call =
    CallExecSql string "sqlarg list"
  | CallExecFn string "'d MigrationCommandFn" "sqlarg list" string

record 'd Migration =
  Repeat :: bool
  Info :: MigrationInfo
  commands :: "'d migrationCommand list"
  Prepare :: "'d prepare_call list option"

definition ExecSql :: "'d Migration \<Rightarrow> string \<Rightarrow> sqlarg list \<Rightarrow> 'd Migration" where
  "ExecSql m sql args =
     m\<lparr>commands := commands m @ [migrationCommandSql sql args],
       Info := (Info m)\<lparr>Checksum := hash (Checksum (Info m) @ hash sql)\<rparr>\<rparr>"

definition ExecFn ::
  "'d Migration \<Rightarrow> string \<Rightarrow> 'd MigrationCommandFn \<Rightarrow> sqlarg list \<Rightarrow> string \<Rightarrow> 'd Migration" where
  "ExecFn m name callback args caller =
     m\<lparr>commands := commands m @ [migrationCommandCallback caller callback args],
       Info := (Info m)\<lparr>Checksum := hash (Checksum (Info m) @ hash name)\<rparr>\<rparr>"

fun apply_call :: "'d prepare_call \<Rightarrow> 'd Migration \<Rightarrow> 'd Migration" where
  "apply_call (CallExecSql sql args) m = ExecSql m sql args"
| "apply_call (CallExecFn name callback args caller) m = ExecFn m name callback args caller"

definition run_prepare :: "'d prepare_call list \<Rightarrow> 'd Migration \<Rightarrow> 'd Migration" where
  "run_prepare calls m = fold apply_call calls m"

text \<open>The string a call contributes to the checksum: the SQL text, or the name.\<close>

fun call_content :: "'d prepare_call \<Rightarrow> string" where
  "call_content (CallExecSql sql args) = sql"
| "call_content (CallExecFn name callback args caller) = name"

text \<open>A migration as \<^verbatim>\<open>AddMigration\<close> creates it, before \<^verbatim>\<open>Prepare\<close> has run.\<close>

definition new_migration :: "string \<Rightarrow> string \<Rightarrow> 'd prepare_call list option \<Rightarrow> 'd Migration" where
  "new_migration version description prepare =
     \<lparr>Repeat = (version = ''R''),
      Info = \<lparr>Version = version, State = MigrationPending, Description = description,
              InstalledRank = 0, Checksum = ''''\<rparr>,
      commands = [],
      Prepare = prepare\<rparr>"

section \<open>Semantic versions\<close>

text \<open>
  Versions are validated and compared with \<^verbatim>\<open>IsValid\<close> and \<^verbatim>\<open>Compare\<close> of the Go module
  \<^verbatim>\<open>golang.org/x/mod/semver\<close>, which is not part of the repository. The functions
  below follow that module: a version is \<^verbatim>\<open>vMAJOR[.MINOR[.PATCH[-PRERELEASE][+BUILD]]]\<close>,
  an invalid version is smaller than every valid one, build metadata is ignored by the
  comparison. Strings are compared as Go compares them, byte by byte.
\<close>

definition isDigit :: "char \<Rightarrow> bool" where
  "isDigit c = (CHR ''0'' \<le> c \<and> c \<le> CHR ''9'')"

definition isIdentChar :: "char \<Rightarrow> bool" where
  "isIdentChar c =
     ((CHR ''A'' \<le> c \<and> c \<le> CHR ''Z'') \<or> (CHR ''a'' \<le> c \<and> c \<le> CHR ''z'')
      \<or> (CHR ''0'' \<le> c \<and> c \<le> CHR ''9'') \<or> c = CHR ''-'')"


definition isBadNum :: "string \<Rightarrow> bool" where
  "isBadNum v = (list_all isDigit v \<and> length v > 1 \<and> hd v = CHR ''0'')"

definition parseInt :: "string \<Rightarrow> (string \<times> string) option" where
  "parseInt v =
     (case v of
        [] \<Rightarrow> None
      | c # _ \<Rightarrow>
          if \<not> isDigit c then None
          else let t = takeWhile isDigit v in
            if c = CHR ''0'' \<and> length t \<noteq> 1 then None
            else Some (t, dropWhile isDigit v))"

text \<open>\<open>idents\<close> splits at the dots: the identifiers of a pre-release or build part.\<close>

fun idents :: "string \<Rightarrow> string list" where
  "idents [] = [[]]"
| "idents (c # cs) =
     (if c = CHR ''.'' then [] # idents cs
      else (case idents cs of [] \<Rightarrow> [[c]] | x # xs \<Rightarrow> (c # x) # xs))"

definition parsePrerelease :: "string \<Rightarrow> (string \<times> string) option" where
  "parsePrerelease v =
     (case v of
        [] \<Rightarrow> None
      | c # cs \<Rightarrow>
          if c \<noteq> CHR ''-'' then None
          else let body = takeWhile (\<lambda>x. x \<noteq> CHR ''+'') cs in
            if list_all (\<lambda>x. isIdentChar x \<or> x = CHR ''.'') body
               \<and> list_all (\<lambda>t. t \<noteq> [] \<and> \<not> isBadNum t) (idents body)
            then Some (c # body, dropWhile (\<lambda>x. x \<noteq> CHR ''+'') cs)
            else None)"

definition parseBuild :: "string \<Rightarrow> (string \<times> string) option" where
  "parseBuild v =
     (case v of
        [] \<Rightarrow> None
      | c # cs \<Rightarrow>
          if c \<noteq> CHR ''+'' then None
          else if list_all (\<lambda>x. isIdentChar x \<or> x = CHR ''.'') cs
                  \<and> list_all (\<lambda>t. t \<noteq> []) (idents cs)
          then Some (v, [])
          else None)"

record parsed =
  major :: string
  minor :: string
  patch :: string
  prerelease :: string
  build :: string

definition parse_tail :: "string \<Rightarrow> string \<Rightarrow> string \<Rightarrow> string \<Rightarrow> parsed option" where
  "parse_tail ma mi pa v =
     (case (if v \<noteq> [] \<and> hd v = CHR ''-'' then parsePrerelease v else Some ([], v)) of
        None \<Rightarrow> None
      | Some (pre, v1) \<Rightarrow>
          (case (if v1 \<noteq> [] \<and> hd v1 = CHR ''+'' then parseBuild v1 else Some ([], v1)) of
             None \<Rightarrow> None
           | Some (bld, v2) \<Rightarrow>
               if v2 \<noteq> [] then None
               else Some \<lparr>major = ma, minor = mi, patch = pa, prerelease = pre, build = bld\<rparr>))"

definition parse :: "string \<Rightarrow> parsed option" where
  "parse v =
     (case v of
        [] \<Rightarrow> None
      | c # v0 \<Rightarrow>
          if c \<noteq> CHR ''v'' then None
          else (case parseInt v0 of
             None \<Rightarrow> None
           | Some (ma, v1) \<Rightarrow>
               if v1 = [] then
                 Some \<lparr>major = ma, minor = ''0'', patch = ''0'', prerelease = [], build = []\<rparr>
               else if hd v1 \<noteq> CHR ''.'' then None
               else (case parseInt (tl v1) of
                  None \<Rightarrow> None
                | Some (mi, v2) \<Rightarrow>
                    if v2 = [] then
                      Some \<lparr>major = ma, minor = mi, patch = ''0'', prerelease = [], build = []\<rparr>
                    else if hd v2 \<noteq> CHR ''.'' then None
                    else (case parseInt (tl v2) of
                       None \<Rightarrow> None
                     | Some (pa, v3) \<Rightarrow> parse_tail ma mi pa v3))))"

definition IsValid :: "string \<Rightarrow> bool" where
  "IsValid v = (parse v \<noteq> None)"







section \<open>Errors\<close>

text \<open>
  The Go code builds its errors with \<^verbatim>\<open>errors.New\<close> from format strings. Each message
  is a constructor here, with the values the message is formatted from. \<open>DriverError\<close>
  is an error of the database driver, \<open>PanicError\<close> a recovered panic, \<open>Joined\<close> the
  result of \<^verbatim>\<open>errors.Join\<close> (which drops its nil arguments). \<open>SliceBoundsPanic\<close> stands
  for a panic that is not recovered.
\<close>

datatype error =
    InvalidVersion string
  | MissingDescription string
  | DuplicateVersion string string string
  | OutOfOrderVersion string string string
  | ChecksumMismatch string string string
  | DescriptionMismatch string string string
  | OrphanAppliedMigration string
  | NotLocked
  | AlreadyLocked
  | UnableToLock error
  | UnableToDelete string error
  | UnableToInsert string error
  | RetrieveFailed error
  | ApplyFailed string
  | CommitFailed string
  | RollbackFailed string
  | DriverError string
  | PanicError string
  | SliceBoundsPanic
  | Joined "error list"

section \<open>Registration\<close>

text \<open>
  \<^verbatim>\<open>AddMigration\<close> tests the length of the description in bytes and cuts a longer one
  with \<^verbatim>\<open>string([]rune(description)[:200])\<close>. The conversion to runes decodes UTF-8,
  one rune \<open>U+FFFD\<close> for every byte that starts no valid encoding; the conversion back
  encodes the runes. Runes are code points, as natural numbers.
\<close>

definition decodeRune :: "string \<Rightarrow> nat \<times> nat" where
  "decodeRune s =
     (case s of
        [] \<Rightarrow> (65533, 1)
      | c0 # r0 \<Rightarrow>
          let b0 = (of_char c0 :: nat) in
          if b0 < 128 then (b0, 1)
          else if b0 < 194 \<or> 244 < b0 then (65533, 1)
          else (case r0 of
             [] \<Rightarrow> (65533, 1)
           | c1 # r1 \<Rightarrow>
               let b1 = (of_char c1 :: nat);
                   lo = (if b0 = 224 then 160 else if b0 = 240 then 144 else 128);
                   hi = (if b0 = 237 then 159 else if b0 = 244 then 143 else 191)
               in
               if b1 < lo \<or> hi < b1 then (65533, 1)
               else if b0 < 224 then ((b0 mod 32) * 64 + b1 mod 64, 2)
               else (case r1 of
                  [] \<Rightarrow> (65533, 1)
                | c2 # r2 \<Rightarrow>
                    let b2 = (of_char c2 :: nat) in
                    if b2 < 128 \<or> 191 < b2 then (65533, 1)
                    else if b0 < 240
                    then ((b0 mod 16) * 4096 + (b1 mod 64) * 64 + b2 mod 64, 3)
                    else (case r2 of
                       [] \<Rightarrow> (65533, 1)
                     | c3 # r3 \<Rightarrow>
                         let b3 = (of_char c3 :: nat) in
                         if b3 < 128 \<or> 191 < b3 then (65533, 1)
                         else ((b0 mod 8) * 262144 + (b1 mod 64) * 4096
                                 + (b2 mod 64) * 64 + b3 mod 64, 4)))))"

text \<open>
  \<open>runes_upto n s\<close> decodes at most \<open>n\<close> runes; every rune takes at least one byte,
  so \<open>length s\<close> steps decode all of \<open>s\<close>.
\<close>

fun runes_upto :: "nat \<Rightarrow> string \<Rightarrow> nat list" where
  "runes_upto 0 s = []"
| "runes_upto (Suc n) s =
     (if s = [] then []
      else (case decodeRune s of (r, width) \<Rightarrow> r # runes_upto n (drop width s)))"

definition runes :: "string \<Rightarrow> nat list" where
  "runes s = runes_upto (length s) s"

definition encodeRune :: "nat \<Rightarrow> string" where
  "encodeRune r =
     (if r < 128 then [char_of r]
      else if r < 2048 then [char_of (192 + r div 64), char_of (128 + r mod 64)]
      else if (55296 \<le> r \<and> r \<le> 57343) \<or> 1114111 < r
      then [char_of (239 :: nat), char_of (191 :: nat), char_of (189 :: nat)]
      else if r < 65536
      then [char_of (224 + r div 4096), char_of (128 + (r div 64) mod 64), char_of (128 + r mod 64)]
      else [char_of (240 + r div 262144), char_of (128 + (r div 4096) mod 64),
            char_of (128 + (r div 64) mod 64), char_of (128 + r mod 64)])"

text \<open>
  The slice expression \<^verbatim>\<open>[:200]\<close> is within bounds up to the capacity of the rune slice,
  which the run time chooses: \<open>rune_cap n\<close> is the capacity it gives a slice of \<open>n\<close>
  runes (and never less than \<open>n\<close>). Beyond its length the slice holds zero runes. Out of
  bounds the program panics: \<open>None\<close>.
\<close>

definition cut200 :: "(nat \<Rightarrow> nat) \<Rightarrow> string \<Rightarrow> string option" where
  "cut200 rune_cap description =
     (let rs = runes description in
      if 200 \<le> length rs then Some (concat (map encodeRune (take 200 rs)))
      else if 200 \<le> rune_cap (length rs)
      then Some (concat (map encodeRune (rs @ replicate (200 - length rs) 0)))
      else None)"

text \<open>
  \<^verbatim>\<open>AddMigration\<close> works on the list \<^verbatim>\<open>d.migrations\<close>. \<open>SliceBoundsPanic\<close> is the
  run-time panic of the slice expression: it is not an error the function returns, the
  call does not return.
\<close>

definition AddMigration ::
  "(nat \<Rightarrow> nat) \<Rightarrow> 'd Migration list \<Rightarrow> string \<Rightarrow> string \<Rightarrow> 'd prepare_call list option \<Rightarrow>
   error + 'd Migration list" where
  "AddMigration rune_cap migrations version description prepare =
     (if version \<noteq> ''R'' \<and> \<not> IsValid (''v'' @ version) then Inl (InvalidVersion version)
      else if length description = 0 then Inl (MissingDescription version)
      else
        (case (if length description > 200 then cut200 rune_cap description else Some description) of
           None \<Rightarrow> Inl SliceBoundsPanic
         | Some description' \<Rightarrow>
             (case find (\<lambda>m. Version (Info m) = version) migrations of
                Some m \<Rightarrow> Inl (DuplicateVersion version (Description (Info m)) description')
              | None \<Rightarrow> Inr (migrations @ [new_migration version description' prepare]))))"

text \<open>
  A sequence of \<^verbatim>\<open>AddMigration\<close> calls; it stops at the first error, as a caller does,
  and at a panic.
\<close>

fun AddMigrations_seq ::
  "(nat \<Rightarrow> nat) \<Rightarrow> 'd Migration list \<Rightarrow> (string \<times> string \<times> 'd prepare_call list option) list \<Rightarrow>
   error + 'd Migration list" where
  "AddMigrations_seq rune_cap migrations [] = Inr migrations"
| "AddMigrations_seq rune_cap migrations ((version, description, prepare) # rest) =
     (case AddMigration rune_cap migrations version description prepare of
        Inl e \<Rightarrow> Inl e
      | Inr migrations' \<Rightarrow> AddMigrations_seq rune_cap migrations' rest)"

section \<open>Ordering\<close>

text \<open>
  \<^verbatim>\<open>sort.SliceStable\<close> sorts blocks of 20 elements by insertion and merges them in
  place. \<open>SliceStable\<close> is that insertion sort: each element moves left while it is less
  than its left neighbour. This is the library's algorithm for up to 20 elements, and for
  a comparison that is a strict weak order every stable sort returns the same list. The
  sorted prefix is kept reversed in \<open>insertionStep\<close>, so that the left neighbour is
  its head.
\<close>

fun insertionStep :: "('a \<Rightarrow> 'a \<Rightarrow> bool) \<Rightarrow> 'a \<Rightarrow> 'a list \<Rightarrow> 'a list" where
  "insertionStep lt x [] = [x]"
| "insertionStep lt x (p # ps) =
     (if lt x p then p # insertionStep lt x ps else x # p # ps)"

definition SliceStable :: "('a \<Rightarrow> 'a \<Rightarrow> bool) \<Rightarrow> 'a list \<Rightarrow> 'a list" where
  "SliceStable lt xs = rev (fold (insertionStep lt) xs [])"



section \<open>The database\<close>

text \<open>
  A row of the history table (\<^verbatim>\<open>installed_on\<close> is left out: time is not modelled).
  The column \<^verbatim>\<open>checksum\<close> is \<^verbatim>\<open>CHARACTER(32)\<close>: the table stores, and a query
  returns, a shorter value padded with blanks to 32 characters.
\<close>

record LedgerRow =
  installed_rank :: int
  version :: string
  description :: string
  checksum :: string
  execution_time :: int
  success :: bool


text \<open>
  The code talks to the database over three handles: the pool (\<^verbatim>\<open>h.dbSchema\<close>), the
  dedicated lock connection (\<^verbatim>\<open>h.dbLock\<close>) and the connection a migration is applied
  on. Every call of the driver is an event, appended to the trace of the world.
\<close>

datatype conn = LockConn | ApplyConn

datatype event =
    EvBootstrap
  | EvConn conn
  | EvBegin conn
  | EvCommit conn
  | EvRollback conn
  | EvClose conn
  | EvLockTable
  | EvQuery int
  | EvDelete string
  | EvInsert LedgerRow

text \<open>
  The world: the committed rows of the history table; the rows as the open transaction
  of the lock connection sees them (\<open>None\<close> when it has no open transaction); the
  committed schema the migrations change, and the schema as the open transaction of the
  apply connection sees it; the trace. A transaction works on its view, a commit
  publishes the view, a rollback drops it. Statements of the pool read the committed rows.
\<close>

record 'd world =
  table :: "LedgerRow list"
  lock_view :: "LedgerRow list option"
  schema :: 'd
  apply_view :: "'d option"
  trace :: "event list"

text \<open>
  The environment: \<open>fault\<close> says whether the driver call that completes a trace fails,
  and with which error (a lost connection, a rejected statement, a violated constraint
  of the table: its primary key, the lengths and the range of its columns). After a
  query, \<open>next_cut\<close> says after how many rows \<^verbatim>\<open>rows.Next\<close> stops because of an
  error (the code does not look at \<^verbatim>\<open>rows.Err\<close>), and \<open>scan_fault\<close> whether
  \<^verbatim>\<open>rows.Scan\<close> fails on the row of an index. \<open>exec_sql\<close> is what the database does
  with a statement of a migration; \<open>elapsed\<close> is the time in milliseconds a stopwatch
  shows at a trace.
\<close>

record 'd env =
  fault :: "event list \<Rightarrow> string option"
  next_cut :: "event list \<Rightarrow> nat option"
  scan_fault :: "event list \<Rightarrow> nat \<Rightarrow> string option"
  exec_sql :: "string \<Rightarrow> sqlarg list \<Rightarrow> 'd \<Rightarrow> 'd outcome"
  elapsed :: "event list \<Rightarrow> int"

text \<open>An environment in which no call of the driver fails.\<close>

definition quiet :: "'d env \<Rightarrow> bool" where
  "quiet env \<longleftrightarrow>
     (\<forall>t. fault env t = None) \<and> (\<forall>t. next_cut env t = None) \<and> (\<forall>t k. scan_fault env t k = None)"

















section \<open>The history store\<close>

text \<open>
  The fields of \<^verbatim>\<open>migrationHistory\<close> the code reads and writes; \<open>migrations\<close> is
  \<^verbatim>\<open>h.db.migrations\<close>, \<open>dbLock\<close> says whether \<^verbatim>\<open>h.dbLock\<close> is set.
\<close>

record 'd migrationHistory =
  migrations :: "'d Migration list"
  dbLock :: bool
  cache :: "MigrationInfo list"
  tableName :: string
  schemaName :: string
  lastAppliedVersion :: string

definition info_of_row :: "LedgerRow \<Rightarrow> MigrationInfo" where
  "info_of_row r =
     \<lparr>Version = version r,
      State = (if success r then MigrationSuccess else MigrationFailed),
      Description = description r,
      InstalledRank = installed_rank r,
      Checksum = checksum r\<rparr>"


definition sortCache :: "'d migrationHistory \<Rightarrow> 'd migrationHistory" where
  "sortCache h = h\<lparr>cache := SliceStable (\<lambda>a b. InstalledRank a < InstalledRank b) (cache h)\<rparr>"


text \<open>
  \<^verbatim>\<open>getAppliedMigrations\<close>: the cache is sorted, and extended by the rows ranked above
  its last entry.
\<close>

definition maxCachedInstalledRank :: "'d migrationHistory \<Rightarrow> int" where
  "maxCachedInstalledRank h =
     (if cache h \<noteq> [] then InstalledRank (last (cache (sortCache h))) else -1)"


text \<open>The cache after a call of \<^verbatim>\<open>getAppliedMigrations\<close> that reads all the rows.\<close>

definition refreshed :: "'d migrationHistory \<Rightarrow> 'd world \<Rightarrow> MigrationInfo list" where
  "refreshed h w =
     cache (sortCache (h\<lparr>cache := cache (sortCache h)
        @ map info_of_row
            (sort_key installed_rank
               (filter (\<lambda>r. installed_rank r > maxCachedInstalledRank h) (table w)))\<rparr>))"

text \<open>The rank \<^verbatim>\<open>calculateInstalledRank\<close> returns after such a call.\<close>

definition next_rank :: "'d migrationHistory \<Rightarrow> 'd world \<Rightarrow> int" where
  "next_rank h w =
     (if length (refreshed h w) = 0 then 1 else InstalledRank (last (refreshed h w)) + 1)"



section \<open>The mutual-exclusion coordinator\<close>



section \<open>Reconciliation and apply\<close>











section \<open>The orchestrator\<close>







section \<open>An example environment\<close>





section \<open>Properties of the coordinator\<close>





section \<open>Properties of the stable sort\<close>

lemma mset_insertionStep: "mset (insertionStep lt x ps) = add_mset x (mset ps)"
  by (induction ps) simp_all

lemma mset_fold_insertionStep: "mset (fold (insertionStep lt) xs acc) = mset xs + mset acc"
  by (induction xs arbitrary: acc) (simp_all add: mset_insertionStep)

lemma mset_SliceStable: "mset (SliceStable lt xs) = mset xs"
  by (simp add: SliceStable_def mset_fold_insertionStep)

lemma set_SliceStable: "set (SliceStable lt xs) = set xs"
  using mset_SliceStable [of lt xs] by (metis set_mset_mset)

lemma length_SliceStable: "length (SliceStable lt xs) = length xs"
  using mset_SliceStable [of lt xs] by (metis size_mset)

lemma set_insertionStep: "set (insertionStep lt x ps) = insert x (set ps)"
  using mset_insertionStep [of lt x ps] by (metis set_mset_add_mset_insert set_mset_mset)

text \<open>
  The reversed prefix stays sorted, for a comparison that is asymmetric and negatively
  transitive on the elements at hand.
\<close>

lemma sorted_insertionStep:
  assumes asym: "\<And>a b. a \<in> S \<Longrightarrow> b \<in> S \<Longrightarrow> lt a b \<Longrightarrow> \<not> lt b a"
    and ntrans: "\<And>a b c. a \<in> S \<Longrightarrow> b \<in> S \<Longrightarrow> c \<in> S \<Longrightarrow> \<not> lt a b \<Longrightarrow> \<not> lt b c \<Longrightarrow> \<not> lt a c"
    and "x \<in> S" and "set ps \<subseteq> S"
    and "sorted_wrt (\<lambda>a b. \<not> lt a b) ps"
  shows "sorted_wrt (\<lambda>a b. \<not> lt a b) (insertionStep lt x ps)"
  using assms(3-)
proof (induction ps)
  case Nil
  then show ?case by simp
next
  case (Cons p ps)
  from Cons.prems have xS: "x \<in> S" and pS: "p \<in> S" and psS: "set ps \<subseteq> S"
    and p_ps: "\<forall>q \<in> set ps. \<not> lt p q" and sorted_ps: "sorted_wrt (\<lambda>a b. \<not> lt a b) ps"
    by simp_all
  show ?case
  proof (cases "lt x p")
    case True
    have "\<not> lt p x"
      using asym [OF xS pS True] .
    moreover have "sorted_wrt (\<lambda>a b. \<not> lt a b) (insertionStep lt x ps)"
      using Cons.IH [OF xS psS sorted_ps] .
    ultimately show ?thesis
      using True p_ps by (simp add: set_insertionStep)
  next
    case False
    have "\<not> lt x q" if "q \<in> set ps" for q
    proof -
      from that psS have "q \<in> S" by blast
      moreover from that p_ps have "\<not> lt p q" by blast
      ultimately show ?thesis
        using ntrans [OF xS pS _ False] by blast
    qed
    with False p_ps sorted_ps show ?thesis
      by simp
  qed
qed

lemma sorted_fold_insertionStep:
  assumes asym: "\<And>a b. a \<in> S \<Longrightarrow> b \<in> S \<Longrightarrow> lt a b \<Longrightarrow> \<not> lt b a"
    and ntrans: "\<And>a b c. a \<in> S \<Longrightarrow> b \<in> S \<Longrightarrow> c \<in> S \<Longrightarrow> \<not> lt a b \<Longrightarrow> \<not> lt b c \<Longrightarrow> \<not> lt a c"
    and "set xs \<subseteq> S" and "set acc \<subseteq> S"
    and "sorted_wrt (\<lambda>a b. \<not> lt a b) acc"
  shows "sorted_wrt (\<lambda>a b. \<not> lt a b) (fold (insertionStep lt) xs acc)"
  using assms(3-)
proof (induction xs arbitrary: acc)
  case Nil
  then show ?case by simp
next
  case (Cons x xs)
  from Cons.prems have xS: "x \<in> S" and xsS: "set xs \<subseteq> S" and accS: "set acc \<subseteq> S"
    and sorted_acc: "sorted_wrt (\<lambda>a b. \<not> lt a b) acc"
    by simp_all
  have "sorted_wrt (\<lambda>a b. \<not> lt a b) (insertionStep lt x acc)"
    by (rule sorted_insertionStep [where S = S, OF asym ntrans xS accS sorted_acc])
  moreover have "set (insertionStep lt x acc) \<subseteq> S"
    using xS accS by (simp add: set_insertionStep)
  ultimately have "sorted_wrt (\<lambda>a b. \<not> lt a b) (fold (insertionStep lt) xs (insertionStep lt x acc))"
    using Cons.IH [of "insertionStep lt x acc"] xsS by blast
  then show ?case by simp
qed

lemma sorted_SliceStable:
  assumes asym: "\<And>a b. a \<in> set xs \<Longrightarrow> b \<in> set xs \<Longrightarrow> lt a b \<Longrightarrow> \<not> lt b a"
    and ntrans: "\<And>a b c. a \<in> set xs \<Longrightarrow> b \<in> set xs \<Longrightarrow> c \<in> set xs \<Longrightarrow>
        \<not> lt a b \<Longrightarrow> \<not> lt b c \<Longrightarrow> \<not> lt a c"
  shows "sorted_wrt (\<lambda>a b. \<not> lt b a) (SliceStable lt xs)"
proof -
  have "sorted_wrt (\<lambda>a b. \<not> lt a b) (fold (insertionStep lt) xs [])"
    by (rule sorted_fold_insertionStep [where S = "set xs", OF asym ntrans]) simp_all
  then show ?thesis
    by (simp add: SliceStable_def sorted_wrt_rev)
qed

text \<open>Stability: elements that are not less than one another keep their order.\<close>

lemma filter_insertionStep:
  assumes "\<And>p. p \<in> set ps \<Longrightarrow> P x \<Longrightarrow> P p \<Longrightarrow> \<not> lt x p"
  shows "filter P (insertionStep lt x ps) = (if P x then x # filter P ps else filter P ps)"
  using assms by (induction ps) auto

lemma filter_fold_insertionStep:
  assumes "\<And>a b. a \<in> set xs \<union> set acc \<Longrightarrow> b \<in> set xs \<union> set acc \<Longrightarrow> P a \<Longrightarrow> P b \<Longrightarrow> \<not> lt a b"
  shows "filter P (fold (insertionStep lt) xs acc) = rev (filter P xs) @ filter P acc"
  using assms
proof (induction xs arbitrary: acc)
  case Nil
  then show ?case by simp
next
  case (Cons x xs)
  have step: "filter P (insertionStep lt x acc) = (if P x then x # filter P acc else filter P acc)"
    using Cons.prems by (intro filter_insertionStep) auto
  have "filter P (fold (insertionStep lt) xs (insertionStep lt x acc)) =
          rev (filter P xs) @ filter P (insertionStep lt x acc)"
    using Cons.prems by (intro Cons.IH) (auto simp: set_insertionStep)
  with step show ?case by simp
qed

lemma filter_SliceStable:
  assumes "\<And>a b. a \<in> set xs \<Longrightarrow> b \<in> set xs \<Longrightarrow> P a \<Longrightarrow> P b \<Longrightarrow> \<not> lt a b"
  shows "filter P (SliceStable lt xs) = filter P xs"
proof -
  have "filter P (fold (insertionStep lt) xs []) = rev (filter P xs) @ filter P []"
    using assms by (intro filter_fold_insertionStep) auto
  moreover have "filter P (SliceStable lt xs) = rev (filter P (fold (insertionStep lt) xs []))"
    unfolding SliceStable_def by (rule rev_filter [symmetric])
  ultimately show ?thesis by simp
qed

section \<open>Properties of reconciliation\<close>












section \<open>Properties of repeatable definitions\<close>







section \<open>Properties of the checksum\<close>

lemma length_le_bytes32: "length (le_bytes32 w) = 4"
  by (simp add: le_bytes32_def)

lemma length_md5_sum: "length (md5_sum bs) = 16"
  by (simp add: md5_sum_def Let_def length_le_bytes32 split: prod.splits)

lemma length_hex_encode: "length (hex_encode bs) = 2 * length bs"
  by (induction bs) (simp_all add: hex_encode_def)

lemma length_hash: "length (hash text) = 32"
  by (simp add: hash_def length_hex_encode length_md5_sum)

lemma Checksum_apply_call:
  "Checksum (Info (apply_call c m)) = hash (Checksum (Info m) @ hash (call_content c))"
  by (cases c) (simp_all add: ExecSql_def ExecFn_def)

lemma Checksum_run_prepare_cong:
  "map call_content cs = map call_content cs' \<Longrightarrow> Checksum (Info m) = Checksum (Info m') \<Longrightarrow>
   Checksum (Info (fold apply_call cs m)) = Checksum (Info (fold apply_call cs' m'))"
proof (induction cs arbitrary: cs' m m')
  case Nil
  then show ?case by simp
next
  case (Cons c cs)
  then obtain c' cs'' where cs': "cs' = c' # cs''"
    by (cases cs') auto
  with Cons.prems have "call_content c = call_content c'" "map call_content cs = map call_content cs''"
    by simp_all
  moreover from this Cons.prems(2)
  have "Checksum (Info (apply_call c m)) = Checksum (Info (apply_call c' m'))"
    by (simp add: Checksum_apply_call)
  ultimately show ?case
    using Cons.IH [of cs'' "apply_call c m" "apply_call c' m'"] cs' by simp
qed

lemma Checksum_new_migration: "Checksum (Info (new_migration v d p)) = []"
  by (simp add: new_migration_def)

lemma Checksum_two_calls:
  "Checksum (Info (run_prepare [a, b] (new_migration v d p))) =
     hash (hash (hash (call_content a)) @ hash (call_content b))"
  by (simp add: run_prepare_def Checksum_apply_call Checksum_new_migration)

lemma swapped_inputs_differ:
  assumes "hash x \<noteq> hash y"
  shows "hash (hash x) @ hash y \<noteq> hash (hash y) @ hash x"
  using assms by (simp add: append_eq_append_conv length_hash)

lemma hash_create: "hash ''CREATE TABLE a (id INT)'' = ''f8ae1c345a0e54bc801b56d4e0e01096''"
  by code_simp

lemma hash_drop: "hash ''DROP TABLE a'' = ''29892f08675a0a25917882c6d7bbb4d4''"
  by code_simp

lemma hash_hash_create: "hash ''f8ae1c345a0e54bc801b56d4e0e01096'' = ''ab1fc928a5cd2daf3daaf42dc873c597''"
  by code_simp

lemma hash_hash_drop: "hash ''29892f08675a0a25917882c6d7bbb4d4'' = ''8bae229c648453aa913e18f61d5d7bb0''"
  by code_simp

lemma hash_create_drop:
  "hash ''ab1fc928a5cd2daf3daaf42dc873c59729892f08675a0a25917882c6d7bbb4d4'' =
     ''d78d6a43f07e8cc85d08dc02f64e0e8e''"
  by code_simp

lemma hash_drop_create:
  "hash ''8bae229c648453aa913e18f61d5d7bb0f8ae1c345a0e54bc801b56d4e0e01096'' =
     ''3a0a55c1223646f0f1fa38ab7a096d54''"
  by code_simp

lemma hash_text_collision_1:
  "hash ''TEXTCOLLBYfGiJUETHQ4hAcKSMd5zYpgqf1YRDhkmxHkhPWptrkoyz28wnI9V0aHeAuaKnak'' =
     ''faad49866e9498fc1719f5289e7a0269''"
  by code_simp

lemma hash_text_collision_2:
  "hash ''TEXTCOLLBYfGiJUETHQ4hEcKSMd5zYpgqf1YRDhkmxHkhPWptrkoyz28wnI9V0aHeAuaKnak'' =
     ''faad49866e9498fc1719f5289e7a0269''"
  by code_simp

subsection \<open>The checksum is a rolling hash\<close>

text \<open>
  Claim C4, as amended. Appending a command sets the checksum to
  \<open>hash (previous checksum @ hash content)\<close>, where the content is the SQL text of
  \<^verbatim>\<open>ExecSql\<close> or the name of \<^verbatim>\<open>ExecFn\<close>, and the checksum of a new migration is the
  empty string. The checksums of the command lists \<open>[a, b]\<close> and \<open>[b, a]\<close> are the
  hashes of two 64-character strings, and these two strings differ whenever the hashes of
  the two contents differ: then the two checksums are equal only if MD5 collides on them.
\<close>

theorem checksum_rolling_hash:
  "Checksum (Info (ExecSql m sql args)) = hash (Checksum (Info m) @ hash sql)
   \<and> Checksum (Info (ExecFn m name callback args caller)) = hash (Checksum (Info m) @ hash name)
   \<and> Checksum (Info (new_migration v d p)) = []
   \<and> Checksum (Info (run_prepare [a, b] (new_migration v d p))) =
       hash (hash (hash (call_content a)) @ hash (call_content b))
   \<and> Checksum (Info (run_prepare [b, a] (new_migration v d p))) =
       hash (hash (hash (call_content b)) @ hash (call_content a))
   \<and> (hash (call_content a) \<noteq> hash (call_content b) \<longrightarrow>
        hash (hash (call_content a)) @ hash (call_content b) \<noteq>
        hash (hash (call_content b)) @ hash (call_content a))"
  using swapped_inputs_differ [of "call_content a" "call_content b"]
  by (simp add: Checksum_two_calls Checksum_new_migration ExecSql_def ExecFn_def)

text \<open>
  Two statements with different hashes: the checksums of the two orders, computed.
\<close>

theorem checksum_rolling_hash_witness:
  "hash ''CREATE TABLE a (id INT)'' \<noteq> hash ''DROP TABLE a''
   \<and> hash (hash ''CREATE TABLE a (id INT)'') @ hash ''DROP TABLE a'' \<noteq>
       hash (hash ''DROP TABLE a'') @ hash ''CREATE TABLE a (id INT)''
   \<and> Checksum (Info (run_prepare [CallExecSql ''CREATE TABLE a (id INT)'' [], CallExecSql ''DROP TABLE a'' []]
         (new_migration ''1.0.0'' ''tables'' (None :: unit prepare_call list option)))) = ''d78d6a43f07e8cc85d08dc02f64e0e8e''
   \<and> Checksum (Info (run_prepare [CallExecSql ''DROP TABLE a'' [], CallExecSql ''CREATE TABLE a (id INT)'' []]
         (new_migration ''1.0.0'' ''tables'' (None :: unit prepare_call list option)))) = ''3a0a55c1223646f0f1fa38ab7a096d54''"
proof -
  have ne: "hash ''CREATE TABLE a (id INT)'' \<noteq> hash ''DROP TABLE a''"
    by (simp add: hash_create hash_drop)
  have r: "Checksum (Info (run_prepare [CallExecSql ''CREATE TABLE a (id INT)'' [], CallExecSql ''DROP TABLE a'' []]
         (new_migration ''1.0.0'' ''tables'' (None :: unit prepare_call list option)))) =
       hash (hash (hash ''CREATE TABLE a (id INT)'') @ hash ''DROP TABLE a'')
     \<and> Checksum (Info (run_prepare [CallExecSql ''DROP TABLE a'' [], CallExecSql ''CREATE TABLE a (id INT)'' []]
         (new_migration ''1.0.0'' ''tables'' (None :: unit prepare_call list option)))) =
       hash (hash (hash ''DROP TABLE a'') @ hash ''CREATE TABLE a (id INT)'')
     \<and> (hash ''CREATE TABLE a (id INT)'' \<noteq> hash ''DROP TABLE a'' \<longrightarrow>
        hash (hash ''CREATE TABLE a (id INT)'') @ hash ''DROP TABLE a'' \<noteq>
        hash (hash ''DROP TABLE a'') @ hash ''CREATE TABLE a (id INT)'')"
    using checksum_rolling_hash [where a = "CallExecSql ''CREATE TABLE a (id INT)'' []"
      and b = "CallExecSql ''DROP TABLE a'' []" and v = "''1.0.0''" and d = "''tables''"
      and p = "None :: unit prepare_call list option"]
    by (simp only: call_content.simps) blast
  have "hash (hash (hash ''CREATE TABLE a (id INT)'') @ hash ''DROP TABLE a'') = ''d78d6a43f07e8cc85d08dc02f64e0e8e''"
    by (simp add: hash_create hash_drop hash_hash_create hash_create_drop)
  moreover have "hash (hash (hash ''DROP TABLE a'') @ hash ''CREATE TABLE a (id INT)'') = ''3a0a55c1223646f0f1fa38ab7a096d54''"
    by (simp add: hash_create hash_drop hash_hash_drop hash_drop_create)
  ultimately show ?thesis
    using r ne by presburger
qed

text \<open>
  The claim as stated fails for two distinct commands with the same SQL text and
  different arguments, and for two distinct SQL texts on which MD5 collides.
\<close>

theorem checksum_order_counterexample:
  "CallExecSql ''INSERT INTO t VALUES ($1)'' [ArgInt 1] \<noteq>
     (CallExecSql ''INSERT INTO t VALUES ($1)'' [ArgInt 2] :: unit prepare_call)
   \<and> Checksum (Info (run_prepare
        [CallExecSql ''INSERT INTO t VALUES ($1)'' [ArgInt 1], CallExecSql ''INSERT INTO t VALUES ($1)'' [ArgInt 2]]
        (new_migration ''1.0.0'' ''rows'' (None :: unit prepare_call list option)))) =
     Checksum (Info (run_prepare
        [CallExecSql ''INSERT INTO t VALUES ($1)'' [ArgInt 2], CallExecSql ''INSERT INTO t VALUES ($1)'' [ArgInt 1]]
        (new_migration ''1.0.0'' ''rows'' (None :: unit prepare_call list option))))
   \<and> ''TEXTCOLLBYfGiJUETHQ4hAcKSMd5zYpgqf1YRDhkmxHkhPWptrkoyz28wnI9V0aHeAuaKnak'' \<noteq>
     ''TEXTCOLLBYfGiJUETHQ4hEcKSMd5zYpgqf1YRDhkmxHkhPWptrkoyz28wnI9V0aHeAuaKnak''
   \<and> Checksum (Info (run_prepare
        [CallExecSql ''TEXTCOLLBYfGiJUETHQ4hAcKSMd5zYpgqf1YRDhkmxHkhPWptrkoyz28wnI9V0aHeAuaKnak'' [],
         CallExecSql ''TEXTCOLLBYfGiJUETHQ4hEcKSMd5zYpgqf1YRDhkmxHkhPWptrkoyz28wnI9V0aHeAuaKnak'' []]
        (new_migration ''1.0.0'' ''rows'' (None :: unit prepare_call list option)))) =
     Checksum (Info (run_prepare
        [CallExecSql ''TEXTCOLLBYfGiJUETHQ4hEcKSMd5zYpgqf1YRDhkmxHkhPWptrkoyz28wnI9V0aHeAuaKnak'' [],
         CallExecSql ''TEXTCOLLBYfGiJUETHQ4hAcKSMd5zYpgqf1YRDhkmxHkhPWptrkoyz28wnI9V0aHeAuaKnak'' []]
        (new_migration ''1.0.0'' ''rows'' (None :: unit prepare_call list option))))"
  by (simp add: Checksum_two_calls hash_text_collision_1 hash_text_collision_2)

subsection \<open>What the checksum depends on\<close>

text \<open>
  Claim C9. The checksum depends only on the SQL texts and the names: two sequences of
  \<^verbatim>\<open>ExecSql\<close> and \<^verbatim>\<open>ExecFn\<close> calls with the same texts and names, position by
  position, made on migrations with the same checksum, give the same checksum, whatever
  the arguments, the callbacks and the call sites are.
\<close>

theorem checksum_ignores_arguments_and_callbacks:
  "map call_content cs = map call_content cs' \<Longrightarrow> Checksum (Info m) = Checksum (Info m') \<Longrightarrow>
   Checksum (Info (run_prepare cs m)) = Checksum (Info (run_prepare cs' m'))"
  unfolding run_prepare_def by (rule Checksum_run_prepare_cong)

theorem checksum_ignores_arguments_and_callbacks_witness:
  "[CallExecSql ''INSERT INTO t VALUES ($1)'' [ArgInt 1], CallExecFn ''seed'' (\<lambda>d args. Done d) [ArgStr ''a''] ''seed.go:10'']
     \<noteq> [CallExecSql ''INSERT INTO t VALUES ($1)'' [ArgInt 2], CallExecFn ''seed'' (\<lambda>d args. Failed ''boom'') [] ''other.go:99'']
   \<and> Checksum (Info (run_prepare
        [CallExecSql ''INSERT INTO t VALUES ($1)'' [ArgInt 1], CallExecFn ''seed'' (\<lambda>d args. Done d) [ArgStr ''a''] ''seed.go:10'']
        (new_migration ''1.0.0'' ''rows'' (None :: unit prepare_call list option)))) =
     Checksum (Info (run_prepare
        [CallExecSql ''INSERT INTO t VALUES ($1)'' [ArgInt 2], CallExecFn ''seed'' (\<lambda>d args. Failed ''boom'') [] ''other.go:99'']
        (new_migration ''1.0.0'' ''rows'' (None :: unit prepare_call list option))))"
proof -
  have "Checksum (Info (run_prepare
        [CallExecSql ''INSERT INTO t VALUES ($1)'' [ArgInt 1], CallExecFn ''seed'' (\<lambda>d args. Done d) [ArgStr ''a''] ''seed.go:10'']
        (new_migration ''1.0.0'' ''rows'' (None :: unit prepare_call list option)))) =
     Checksum (Info (run_prepare
        [CallExecSql ''INSERT INTO t VALUES ($1)'' [ArgInt 2], CallExecFn ''seed'' (\<lambda>d args. Failed ''boom'') [] ''other.go:99'']
        (new_migration ''1.0.0'' ''rows'' (None :: unit prepare_call list option))))"
    by (rule checksum_ignores_arguments_and_callbacks) simp_all
  then show ?thesis by simp
qed

section \<open>Properties of registration\<close>

text \<open>
  Claim C7, as amended. For a version that is valid or the repeatable marker, and a
  description that is not empty: when the description has more than 200 bytes and
  cutting it panics, \<^verbatim>\<open>AddMigration\<close> panics, before it looks for a duplicate;
  otherwise (the description has at most 200 bytes, or cutting it gives \<open>d'\<close>) it fails
  with the duplicate-version error exactly when a registered migration has the same
  version string, the repeatable marker \<open>R\<close> included, and else appends the new
  migration.
\<close>

theorem AddMigration_rejects_every_duplicate:
  assumes "ver = ''R'' \<or> IsValid (''v'' @ ver)" and "descr \<noteq> []"
  shows "(case (if length descr > 200 then cut200 rune_cap descr else Some descr) of
            None \<Rightarrow> AddMigration rune_cap ms ver descr p = Inl SliceBoundsPanic
          | Some d' \<Rightarrow>
              (if \<exists>m \<in> set ms. Version (Info m) = ver
               then \<exists>d1. AddMigration rune_cap ms ver descr p = Inl (DuplicateVersion ver d1 d')
               else AddMigration rune_cap ms ver descr p = Inr (ms @ [new_migration ver d' p])))"
proof (cases "find (\<lambda>m. Version (Info m) = ver) ms")
  case None
  then have "\<not> (\<exists>m \<in> set ms. Version (Info m) = ver)"
    by (simp add: find_None_iff)
  with None assms show ?thesis
    by (auto simp add: AddMigration_def split: option.splits)
next
  case (Some m)
  then have "\<exists>m \<in> set ms. Version (Info m) = ver"
    by (auto simp: find_Some_iff)
  with Some assms show ?thesis
    by (auto simp add: AddMigration_def split: option.splits)
qed

text \<open>
  The marker registered a second time; and a description of 101 two-byte characters
  (202 bytes, 101 runes) with a rune slice of capacity 104.
\<close>

theorem AddMigration_rejects_every_duplicate_witness:
  "AddMigration (\<lambda>n. n) [new_migration ''R'' ''first'' (None :: unit prepare_call list option)]
     ''R'' ''second'' None =
     Inl (DuplicateVersion ''R'' ''first'' ''second'')
   \<and> AddMigration (\<lambda>n. n + 3) ([] :: unit Migration list) ''R''
       (concat (replicate 101 [char_of (195 :: nat), char_of (169 :: nat)])) None =
     Inl SliceBoundsPanic"
proof -
  have cut: "cut200 (\<lambda>n. n + 3) (concat (replicate 101 [char_of (195 :: nat), char_of (169 :: nat)])) = None"
    by code_simp
  have len: "length (concat (replicate 101 [char_of (195 :: nat), char_of (169 :: nat)])) = 202"
    by code_simp
  have ne: "concat (replicate 101 [char_of (195 :: nat), char_of (169 :: nat)]) \<noteq> []"
    using len by auto
  show ?thesis
    using AddMigration_rejects_every_duplicate [of "''R''" "''second''" "\<lambda>n. n"
        "[new_migration ''R'' ''first'' (None :: unit prepare_call list option)]" None]
      AddMigration_rejects_every_duplicate [of "''R''"
        "concat (replicate 101 [char_of (195 :: nat), char_of (169 :: nat)])" "\<lambda>n. n + 3"
        "[] :: unit Migration list" None]
      cut len ne
    by (simp add: new_migration_def AddMigration_def)
qed

text \<open>Registering the repeatable marker a second time is rejected.\<close>

theorem repeatable_registered_twice_counterexample:
  "AddMigrations_seq (\<lambda>n. n) ([] :: unit Migration list)
     [(''R'', ''first'', None), (''R'', ''second'', None)] =
     Inl (DuplicateVersion ''R'' ''first'' ''second'')"
  by (simp add: AddMigration_def new_migration_def)

end
